theory Spec2Isabelle
  imports Main
begin

section \<open>The slug alphabet and the generator\<close>

text \<open>
  The program is a single Go file, \<^verbatim>\<open>main.go\<close>. Strings are byte sequences, modelled as
  \<^typ>\<open>string\<close>. \<^verbatim>\<open>time.Duration\<close> is a count of nanoseconds, modelled as \<^typ>\<open>int\<close>.
\<close>

type_synonym Duration = int

record ShortUrl =
  Slug :: string
  Target :: string
  Clicks :: int
  Ttl :: Duration

definition second :: Duration where
  "second = 1000000000"

text \<open>\<^verbatim>\<open>var default_ttl, _ = time.ParseDuration("1h")\<close>\<close>

definition default_ttl :: Duration where
  "default_ttl = 3600 * second"

text \<open>\<^verbatim>\<open>const runes = "abcdefghjklmnpqrstuvwxyzABCDEFGHJKLMNPQRSTUVWXYZ1234567890"\<close>\<close>

definition runes :: string where
  "runes = ''abcdefghjklmnpqrstuvwxyzABCDEFGHJKLMNPQRSTUVWXYZ1234567890''"

text \<open>
  The alphabet as the specification words it: the letters and digits without
  \<open>i\<close>, \<open>o\<close>, \<open>I\<close>, \<open>O\<close>. It is compared with \<^const>\<open>runes\<close> below.
\<close>

definition spec_alphabet :: "char set" where
  "spec_alphabet =
     (set ''abcdefghijklmnopqrstuvwxyz'' \<union> set ''ABCDEFGHIJKLMNOPQRSTUVWXYZ''
        \<union> set ''0123456789'')
     - {CHR ''i'', CHR ''o'', CHR ''I'', CHR ''O''}"

section \<open>The environment: random source, backing store, log\<close>

text \<open>
  Errors are values. \<open>RedisNil\<close> is \<^verbatim>\<open>redis.Nil\<close>, the client's error for a key that
  does not exist (the specification's NotFound); \<open>NotAnInteger\<close> and \<open>WouldOverflow\<close> are the
  server's two error replies to \<^verbatim>\<open>INCRBY\<close>; \<open>BackendUnavailable\<close> is any transport-level
  failure of a round trip; \<open>CannotParseKey\<close> and \<open>CouldNotStore\<close> are the two
  \<^verbatim>\<open>errors.New\<close> values of the program (the second is the specification's
  AllocationExhausted).
\<close>

datatype error =
    RedisNil
  | NotAnInteger
  | WouldOverflow
  | BackendUnavailable
  | CannotParseKey
  | CouldNotStore

text \<open>
  A key of the backing store holds a value and, possibly, a remaining time to live in
  whole seconds (\<open>None\<close>: the key never expires). A value is a string written by
  \<^verbatim>\<open>SET\<close> or a 64-bit counter kept by \<^verbatim>\<open>INCRBY\<close>. The program writes strings only
  under \<^verbatim>\<open>url:\<close> and counters only under \<^verbatim>\<open>urlhitcount:\<close>. The passing of time is
  not modelled: a time to live is the value the store holds at the instant of the call.
\<close>

datatype rvalue = Str string | Num int

type_synonym entry = "rvalue \<times> nat option"

type_synonym keyspace = "string \<rightharpoonup> entry"

text \<open>The three \<^verbatim>\<open>log.Println\<close> calls of the program.\<close>

datatype logline =
    LogCreated string string
  | LogCollision string
  | LogIncremented string int

text \<open>
  Everything outside the program that its functions read or change:
  \<^item> \<open>rng\<close>, \<open>drawn\<close>: the values the process-wide generator of \<^verbatim>\<open>math/rand\<close> yields,
    and how many of them have been consumed;
  \<^item> \<open>db\<close>: the keys of the backing store;
  \<^item> \<open>faults\<close>, \<open>calls\<close>: which round trips to the store fail at the transport level,
    and how many round trips have been issued;
  \<^item> \<open>buckets\<close>: the order in which the server's table is walked by \<^verbatim>\<open>SCAN\<close>;
  \<^item> \<open>logs\<close>: the lines written by \<^verbatim>\<open>log.Println\<close>.
\<close>

record world =
  rng :: "nat \<Rightarrow> nat"
  drawn :: nat
  db :: keyspace
  faults :: "nat \<Rightarrow> bool"
  calls :: nat
  buckets :: "string list list"
  logs :: "logline list"

text \<open>\<^verbatim>\<open>rand.Intn(n)\<close>: the next value of the generator, in \<open>[0, n)\<close>.\<close>

definition Intn :: "nat \<Rightarrow> world \<Rightarrow> nat \<times> world" where
  "Intn n w = (rng w (drawn w) mod n, w\<lparr>drawn := drawn w + 1\<rparr>)"

definition Println :: "logline \<Rightarrow> world \<Rightarrow> world" where
  "Println l w = w\<lparr>logs := logs w @ [l]\<rparr>"

text \<open>
  One round trip to the store: it fails or not as the fault schedule says. A failed round
  trip is modelled as leaving the store as it was.
\<close>

definition roundtrip :: "world \<Rightarrow> bool \<times> world" where
  "roundtrip w = (faults w (calls w), w\<lparr>calls := calls w + 1\<rparr>)"

subsection \<open>The commands of the store\<close>

definition int64_ok :: "int \<Rightarrow> bool" where
  "int64_ok n = (- (2 ^ 63) \<le> n \<and> n < 2 ^ 63)"

fun decimal_nat :: "nat \<Rightarrow> string" where
  "decimal_nat n =
     (if n < 10 then [''0123456789'' ! n]
      else decimal_nat (n div 10) @ [''0123456789'' ! (n mod 10)])"

declare decimal_nat.simps [simp del]

definition decimal :: "int \<Rightarrow> string" where
  "decimal n = (if n < 0 then CHR ''-'' # decimal_nat (nat (- n)) else decimal_nat (nat n))"

text \<open>\<^verbatim>\<open>GET key\<close>: the value as a string; \<^verbatim>\<open>redis.Nil\<close> when the key does not exist.\<close>

definition redis_get :: "keyspace \<Rightarrow> string \<Rightarrow> error + string" where
  "redis_get kv key =
     (case kv key of
        None \<Rightarrow> Inl RedisNil
      | Some (Str s, t) \<Rightarrow> Inr s
      | Some (Num n, t) \<Rightarrow> Inr (decimal n))"

text \<open>
  \<^verbatim>\<open>INCRBY key d\<close>: a key that does not exist is set to 0 first (with no expiry); the
  time to live of an existing key is kept. A string value is modelled as not being a
  number.
\<close>

definition redis_incrby :: "keyspace \<Rightarrow> string \<Rightarrow> int \<Rightarrow> (error + int) \<times> keyspace" where
  "redis_incrby kv key d =
     (case kv key of
        None \<Rightarrow>
          (if int64_ok (0 + d) then (Inr (0 + d), kv(key \<mapsto> (Num (0 + d), None)))
           else (Inl WouldOverflow, kv))
      | Some (Str s, t) \<Rightarrow> (Inl NotAnInteger, kv)
      | Some (Num n, t) \<Rightarrow>
          (if int64_ok n \<and> int64_ok (n + d) then (Inr (n + d), kv(key \<mapsto> (Num (n + d), t)))
           else (Inl WouldOverflow, kv)))"

text \<open>
  \<^verbatim>\<open>TTL key\<close> as the client returns it: the remaining seconds as a duration, and the
  durations \<open>-1\<close> and \<open>-2\<close> for a key without expiry and for a key that does not exist.
\<close>

definition redis_ttl :: "keyspace \<Rightarrow> string \<Rightarrow> Duration" where
  "redis_ttl kv key =
     (case kv key of
        None \<Rightarrow> - 2
      | Some (v, None) \<Rightarrow> - 1
      | Some (v, Some s) \<Rightarrow> int s * second)"

text \<open>\<^verbatim>\<open>SET key value EX secs NX\<close>: writes only a key that does not exist.\<close>

definition redis_setnx :: "keyspace \<Rightarrow> string \<Rightarrow> string \<Rightarrow> nat \<Rightarrow> bool \<times> keyspace" where
  "redis_setnx kv key val secs =
     (case kv key of
        None \<Rightarrow> (True, kv(key \<mapsto> (Str val, Some secs)))
      | Some e \<Rightarrow> (False, kv))"

text \<open>\<^verbatim>\<open>EXPIRE key secs\<close>: sets the time to live of an existing key.\<close>

definition redis_expire :: "keyspace \<Rightarrow> string \<Rightarrow> nat \<Rightarrow> bool \<times> keyspace" where
  "redis_expire kv key secs =
     (case kv key of
        None \<Rightarrow> (False, kv)
      | Some (v, t) \<Rightarrow> (True, kv(key \<mapsto> (v, Some secs))))"

text \<open>
  The pattern of \<^verbatim>\<open>SCAN ... MATCH\<close>. The only pattern the program sends is
  \<^verbatim>\<open>url:*\<close>, so of the glob syntax only \<open>*\<close> is modelled.
\<close>

fun glob :: "string \<Rightarrow> string \<Rightarrow> bool" where
  "glob [] s = (s = [])"
| "glob (p # ps) [] = (p = CHR ''*'' \<and> glob ps [])"
| "glob (p # ps) (c # cs) =
     (if p = CHR ''*'' then glob ps (c # cs) \<or> glob (p # ps) cs
      else p = c \<and> glob ps cs)"

text \<open>
  \<^verbatim>\<open>SCAN 0 MATCH pat COUNT n\<close>. The server walks its table bucket by bucket from the
  start and stops as soon as it has collected \<open>n\<close> keys or more, and then keeps the keys
  that match: \<open>n\<close> is a hint of the work to do, not a bound on the reply, which may hold
  fewer keys than \<open>n\<close> or a few more.
\<close>

fun visit :: "nat \<Rightarrow> string list list \<Rightarrow> string list \<Rightarrow> string list" where
  "visit n [] acc = acc"
| "visit n (b # bs) acc =
     (let acc' = acc @ b in if length acc' < n then visit n bs acc' else acc')"

definition redis_scan :: "keyspace \<Rightarrow> string list list \<Rightarrow> string \<Rightarrow> nat \<Rightarrow> string list" where
  "redis_scan kv bks pat n = filter (\<lambda>k. kv k \<noteq> None \<and> glob pat k) (visit n bks [])"

text \<open>The time to live the client sends for a duration of whole seconds.\<close>

definition seconds :: "Duration \<Rightarrow> nat" where
  "seconds d = nat (d div second)"

text \<open>\<^verbatim>\<open>Val()\<close> of a command: the zero value when the command failed.\<close>

definition val_or :: "'a \<Rightarrow> error + 'a \<Rightarrow> 'a" where
  "val_or z r = (case r of Inl e \<Rightarrow> z | Inr v \<Rightarrow> v)"

subsection \<open>The client calls the program makes\<close>

definition SetNX :: "world \<Rightarrow> string \<Rightarrow> string \<Rightarrow> Duration \<Rightarrow> (error + bool) \<times> world" where
  "SetNX w key val expiration =
     (let (down, w1) = roundtrip w in
      if down then (Inl BackendUnavailable, w1)
      else
        let (ok, kv) = redis_setnx (db w1) key val (seconds expiration)
        in (Inr ok, w1\<lparr>db := kv\<rparr>))"

definition Get :: "world \<Rightarrow> string \<Rightarrow> (error + string) \<times> world" where
  "Get w key =
     (let (down, w1) = roundtrip w in
      if down then (Inl BackendUnavailable, w1)
      else (redis_get (db w1) key, w1))"

definition Incr :: "world \<Rightarrow> string \<Rightarrow> (error + int) \<times> world" where
  "Incr w key =
     (let (down, w1) = roundtrip w in
      if down then (Inl BackendUnavailable, w1)
      else
        let (r, kv) = redis_incrby (db w1) key 1
        in (r, w1\<lparr>db := kv\<rparr>))"

text \<open>The cursor of the reply is discarded by the caller and is left out.\<close>

definition Scan :: "world \<Rightarrow> string \<Rightarrow> nat \<Rightarrow> (error + string list) \<times> world" where
  "Scan w pat n =
     (let (down, w1) = roundtrip w in
      if down then (Inl BackendUnavailable, w1)
      else (Inr (redis_scan (db w1) (buckets w1) pat n), w1))"

section \<open>The program\<close>

subsection \<open>Slugs and keys\<close>

text \<open>
  \<^verbatim>\<open>randomSlug\<close>: the loop \<^verbatim>\<open>for i := range b\<close> over the 8 bytes of \<open>b\<close>, each set to
  \<^verbatim>\<open>runes[rand.Intn(len(runes))]\<close>. The index is below \<open>len(runes)\<close>, so the read never
  panics.
\<close>

fun fill :: "nat \<Rightarrow> world \<Rightarrow> string \<times> world" where
  "fill 0 w = ([], w)"
| "fill (Suc k) w =
     (let (i, w1) = Intn (length runes) w;
          (cs, w2) = fill k w1
      in (runes ! i # cs, w2))"

definition randomSlug :: "world \<Rightarrow> string \<times> world" where
  "randomSlug w = fill 8 w"

text \<open>\<^verbatim>\<open>strings.HasPrefix\<close> and \<^verbatim>\<open>strings.Contains\<close>.\<close>

fun HasPrefix :: "string \<Rightarrow> string \<Rightarrow> bool" where
  "HasPrefix s [] = True"
| "HasPrefix [] (p # ps) = False"
| "HasPrefix (c # cs) (p # ps) = (c = p \<and> HasPrefix cs ps)"

fun Contains :: "string \<Rightarrow> string \<Rightarrow> bool" where
  "Contains [] sub = (sub = [])"
| "Contains (c # cs) sub = (HasPrefix (c # cs) sub \<or> Contains cs sub)"

text \<open>
  \<^verbatim>\<open>slugIsValid\<close>. The Go loop ranges over the code points of the slug and looks the
  encoding of each up in \<^const>\<open>runes\<close>. \<^const>\<open>runes\<close> is ASCII, so a code point is found
  exactly when it is a single byte of \<^const>\<open>runes\<close>, and any byte of a longer or invalid
  encoding is not found: the loop over bytes below returns the same.
\<close>

fun slugIsValid :: "string \<Rightarrow> bool" where
  "slugIsValid [] = True"
| "slugIsValid (char # rest) =
     (if \<not> Contains runes [char] then False else slugIsValid rest)"

text \<open>\<^verbatim>\<open>strings.SplitN(key, ":", 2)\<close>: split at the first separator, if there is one.\<close>

definition SplitN2 :: "string \<Rightarrow> string list" where
  "SplitN2 key =
     (if CHR '':'' \<in> set key
      then [takeWhile (\<lambda>c. c \<noteq> CHR '':'') key, tl (dropWhile (\<lambda>c. c \<noteq> CHR '':'') key)]
      else [key])"

definition slugFromKey :: "string \<Rightarrow> error + string" where
  "slugFromKey key =
     (let z = SplitN2 key
      in if length z = 2 then Inr (z ! 1) else Inl CannotParseKey)"

definition keyOfSlug :: "string \<Rightarrow> string" where
  "keyOfSlug slug = ''url:'' @ slug"

definition keyOfSlugHitCount :: "string \<Rightarrow> string" where
  "keyOfSlugHitCount slug = ''urlhitcount:'' @ slug"

subsection \<open>Creating a record\<close>

text \<open>
  \<^verbatim>\<open>store\<close>: the loop \<^verbatim>\<open>for attempt := 0; attempt < 10; attempt++\<close>. The success branch
  is taken when \<^verbatim>\<open>err == nil && val == true\<close>; every other outcome of \<^verbatim>\<open>SetNX\<close>, an
  error reply included, takes the branch that logs a collision and goes on.
\<close>

function store_from :: "nat \<Rightarrow> world \<Rightarrow> string \<Rightarrow> (error + ShortUrl) \<times> world" where
  "store_from attempt w target =
     (if attempt < 10 then
        (let (slug, w1) = randomSlug w;
             (r, w2) = SetNX w1 (keyOfSlug slug) target default_ttl
         in if r = Inr True
            then (Inr \<lparr>Slug = slug, Target = target, Clicks = 0, Ttl = default_ttl\<rparr>,
                  Println (LogCreated slug target) w2)
            else store_from (attempt + 1) (Println (LogCollision slug) w2) target)
      else (Inl CouldNotStore, w))"
  by pat_completeness auto
termination
  by (relation "measure (\<lambda>(attempt, w, target). 10 - attempt)") auto

declare store_from.simps [simp del]

definition store :: "world \<Rightarrow> string \<Rightarrow> (error + ShortUrl) \<times> world" where
  "store w target = store_from 0 w target"

subsection \<open>Reading a record\<close>

text \<open>
  \<^verbatim>\<open>getDetailsOfKey\<close>: one pipeline of \<^verbatim>\<open>GET\<close>, \<^verbatim>\<open>INCRBY ... 0\<close> and \<^verbatim>\<open>TTL\<close>, sent in one
  round trip and run by the server in this order. \<^verbatim>\<open>Pipelined\<close> returns the first error
  among its commands, \<^verbatim>\<open>redis.Nil\<close> of the \<^verbatim>\<open>GET\<close> included; the later commands run all
  the same.
\<close>

definition getDetailsOfKey :: "world \<Rightarrow> string \<Rightarrow> (error + ShortUrl) \<times> world" where
  "getDetailsOfKey w slug =
     (let (down, w1) = roundtrip w in
      if down then (Inl BackendUnavailable, w1)
      else
        let target = redis_get (db w1) (keyOfSlug slug);
            (counter, kv) = redis_incrby (db w1) (keyOfSlugHitCount slug) 0;
            ttl = redis_ttl kv (keyOfSlug slug);
            w2 = w1\<lparr>db := kv\<rparr>
        in case target of
             Inl e \<Rightarrow> (Inl e, w2)
           | Inr t \<Rightarrow>
               (case counter of
                  Inl e \<Rightarrow> (Inl e, w2)
                | Inr c \<Rightarrow> (Inr \<lparr>Slug = slug, Target = t, Clicks = c, Ttl = ttl\<rparr>, w2)))"

subsection \<open>Sampling the records\<close>

text \<open>
  \<^verbatim>\<open>sampleExisting\<close>: one \<^verbatim>\<open>SCAN\<close> from cursor 0 with the pattern \<^verbatim>\<open>keyOfSlug("*")\<close>
  and the count 10, then the loop over the keys of the reply. A key that does not parse
  and a key whose read fails add nothing to \<open>r\<close>.
\<close>

fun sample_loop :: "string list \<Rightarrow> world \<Rightarrow> ShortUrl list \<Rightarrow> ShortUrl list \<times> world" where
  "sample_loop [] w r = (r, w)"
| "sample_loop (v # keys) w r =
     (case slugFromKey v of
        Inl e \<Rightarrow> sample_loop keys w r
      | Inr slug \<Rightarrow>
          (case getDetailsOfKey w slug of
             (Inr su, w1) \<Rightarrow> sample_loop keys w1 (r @ [su])
           | (Inl e, w1) \<Rightarrow> sample_loop keys w1 r))"

definition sampleExisting :: "world \<Rightarrow> ShortUrl list \<times> world" where
  "sampleExisting w =
     (case Scan w (keyOfSlug ''*'') 10 of
        (Inr keys, w1) \<Rightarrow> sample_loop keys w1 []
      | (Inl e, w1) \<Rightarrow> ([], w1))"

subsection \<open>The handler of a slug\<close>

text \<open>
  The block of the handler that counts a hit: \<^verbatim>\<open>redis_db.Incr\<close> is called on the client,
  not on the pipeline, so it is a round trip of its own and runs first; the pipeline then
  carries the two \<^verbatim>\<open>EXPIRE\<close> commands. The error of \<^verbatim>\<open>Pipelined\<close> is dropped. The result
  is \<^verbatim>\<open>counter.Val()\<close>.
\<close>

definition recordHit :: "world \<Rightarrow> string \<Rightarrow> int \<times> world" where
  "recordHit w slug =
     (let (counter, w1) = Incr w (keyOfSlugHitCount slug);
          (down, w2) = roundtrip w1;
          w3 = (if down then w2
                else
                  let (ok1, kv1) = redis_expire (db w2) (keyOfSlugHitCount slug) (seconds default_ttl);
                      (ok2, kv2) = redis_expire kv1 (keyOfSlug slug) (seconds default_ttl)
                  in w2\<lparr>db := kv2\<rparr>)
      in (val_or 0 counter, w3))"

datatype response =
    NotAcceptable
  | NotFound
  | DetailsPage ShortUrl
  | Redirect string

text \<open>
  The handler of \<^verbatim>\<open>/{slug}\<close>; \<open>details\<close> says whether the query has a \<^verbatim>\<open>details\<close>
  parameter.
\<close>

definition slugHandler :: "world \<Rightarrow> string \<Rightarrow> bool \<Rightarrow> response \<times> world" where
  "slugHandler w slug details =
     (if \<not> slugIsValid slug then (NotAcceptable, w)
      else
        let (target, w1) = Get w (keyOfSlug slug)
        in case target of
             Inl e \<Rightarrow> (NotFound, w1)
           | Inr t \<Rightarrow>
               if details then
                 (let (down, w2) = roundtrip w1 in
                  if down
                  then (DetailsPage \<lparr>Slug = slug, Target = t, Clicks = 0, Ttl = 0\<rparr>, w2)
                  else
                    let (counter, kv) = redis_incrby (db w2) (keyOfSlugHitCount slug) 0;
                        ttl = redis_ttl kv (keyOfSlug slug)
                    in (DetailsPage
                          \<lparr>Slug = slug, Target = t, Clicks = val_or 0 counter, Ttl = ttl\<rparr>,
                        w2\<lparr>db := kv\<rparr>))
               else
                 (let (n, w2) = recordHit w1 slug
                  in (Redirect t, Println (LogIncremented slug n) w2)))"

subsection \<open>Runs of the program\<close>

text \<open>
  The operations that change the world: creating a record, reading one, a request for a
  slug, sampling. A run is a sequence of them.
\<close>

datatype operation =
    Create string
  | Inspect string
  | Visit string bool
  | Sample

fun exec :: "world \<Rightarrow> operation \<Rightarrow> world" where
  "exec w (Create target) = snd (store w target)"
| "exec w (Inspect slug) = snd (getDetailsOfKey w slug)"
| "exec w (Visit slug details) = snd (slugHandler w slug details)"
| "exec w Sample = snd (sampleExisting w)"

fun run :: "world \<Rightarrow> operation list \<Rightarrow> world" where
  "run w [] = w"
| "run w (x # xs) = run (exec w x) xs"

text \<open>
  The worlds the program reaches from an empty store, whatever the generator yields,
  whichever round trips fail and however the server orders its table.
\<close>

inductive reachable :: "world \<Rightarrow> bool" where
  start: "db w = Map.empty \<Longrightarrow> reachable w"
| step: "reachable w \<Longrightarrow> reachable (exec w x)"
| rehash: "reachable w \<Longrightarrow> reachable (w\<lparr>buckets := bks\<rparr>)"

text \<open>
  The slug the \<open>k\<close>-th attempt of \<^const>\<open>store\<close> draws (the attempts are counted from 0): each
  attempt consumes 8 values of the generator.
\<close>

definition attempt_slug :: "world \<Rightarrow> nat \<Rightarrow> string" where
  "attempt_slug w k = fst (randomSlug (w\<lparr>drawn := drawn w + 8 * k\<rparr>))"

text \<open>The hit count of a slug as the store holds it; a missing counter key counts as 0.\<close>

definition clicks :: "world \<Rightarrow> string \<Rightarrow> int" where
  "clicks w slug =
     (case db w (keyOfSlugHitCount slug) of
        Some (Num n, t) \<Rightarrow> n
      | _ \<Rightarrow> 0)"

section \<open>Sample worlds\<close>

text \<open>An empty store that answers every round trip.\<close>

definition w0 :: world where
  "w0 = \<lparr>rng = (\<lambda>k. 7 * k + 3), drawn = 0, db = Map.empty, faults = (\<lambda>k. False), calls = 0,
         buckets = [], logs = []\<rparr>"

section \<open>Properties\<close>

subsection \<open>The alphabet, the generator and the validity check\<close>

lemma runes_distinct: "distinct runes"
  unfolding runes_def by simp

lemma runes_length: "length runes = 58"
  unfolding runes_def by simp

lemma runes_card: "card (set runes) = 58"
  using distinct_card [OF runes_distinct] runes_length by simp

lemma runes_spec_alphabet: "set runes = spec_alphabet"
  unfolding runes_def spec_alphabet_def by auto

lemma HasPrefix_single: "HasPrefix s [c] \<longleftrightarrow> (s \<noteq> [] \<and> hd s = c)"
  by (cases s) auto

lemma Contains_single: "Contains s [c] \<longleftrightarrow> c \<in> set s"
  by (induction s) auto

lemma slugIsValid_set: "slugIsValid s \<longleftrightarrow> set s \<subseteq> set runes"
  by (induction s) (auto simp: Contains_single)

lemma Intn_fields:
  "drawn (snd (Intn n w)) = drawn w + 1" "rng (snd (Intn n w)) = rng w"
  "db (snd (Intn n w)) = db w" "faults (snd (Intn n w)) = faults w"
  "calls (snd (Intn n w)) = calls w" "buckets (snd (Intn n w)) = buckets w"
  "logs (snd (Intn n w)) = logs w"
  by (simp_all add: Intn_def)

lemma Intn_less: "0 < n \<Longrightarrow> fst (Intn n w) < n"
  by (simp add: Intn_def)

lemma fill_length: "length (fst (fill k w)) = k"
  by (induction k arbitrary: w) (auto simp: split_beta Let_def)

lemma fill_set: "set (fst (fill k w)) \<subseteq> set runes"
proof (induction k arbitrary: w)
  case 0
  show ?case by simp
next
  case (Suc k)
  have "fst (Intn (length runes) w) < length runes"
    by (rule Intn_less) (simp add: runes_length)
  then have "runes ! fst (Intn (length runes) w) \<in> set runes"
    by (rule nth_mem)
  with Suc show ?case
    by (simp add: split_beta Let_def)
qed

lemma fill_world: "snd (fill k w) = w\<lparr>drawn := drawn w + k\<rparr>"
  by (induction k arbitrary: w) (auto simp: split_beta Let_def Intn_def)

lemma randomSlug_world: "snd (randomSlug w) = w\<lparr>drawn := drawn w + 8\<rparr>"
  by (simp add: randomSlug_def fill_world)

text \<open>
  Claim C7, amended. Every call of \<^const>\<open>randomSlug\<close> returns a string of length exactly 8
  whose every character is a member of the alphabet, the letters and digits without
  \<open>i\<close>, \<open>o\<close>, \<open>I\<close>, \<open>O\<close>; this alphabet has 58 symbols; it contains none of
  \<open>i\<close>, \<open>I\<close>, \<open>o\<close>, \<open>O\<close>; and every generated slug satisfies \<^const>\<open>slugIsValid\<close>.
\<close>

theorem randomSlug_alphabet:
  "length (fst (randomSlug w)) = 8
   \<and> (\<forall>c \<in> set (fst (randomSlug w)). c \<in> set runes)
   \<and> set runes = spec_alphabet
   \<and> card (set runes) = 58
   \<and> CHR ''i'' \<notin> set runes \<and> CHR ''I'' \<notin> set runes
   \<and> CHR ''o'' \<notin> set runes \<and> CHR ''O'' \<notin> set runes
   \<and> slugIsValid (fst (randomSlug w))"
proof -
  have sub: "set (fst (randomSlug w)) \<subseteq> set runes"
    by (simp add: randomSlug_def fill_set)
  have len: "length (fst (randomSlug w)) = 8"
    by (simp add: randomSlug_def fill_length)
  have mem: "\<forall>c \<in> set (fst (randomSlug w)). c \<in> set runes"
    using sub by blast
  have valid: "slugIsValid (fst (randomSlug w))"
    using sub by (simp only: slugIsValid_set)
  have no: "CHR ''i'' \<notin> set runes \<and> CHR ''I'' \<notin> set runes
      \<and> CHR ''o'' \<notin> set runes \<and> CHR ''O'' \<notin> set runes"
    by (simp add: runes_def)
  from len mem runes_spec_alphabet runes_card no valid show ?thesis
    by blast
qed

theorem randomSlug_alphabet_witness:
  "length (fst (randomSlug w0)) = 8 \<and> slugIsValid (fst (randomSlug w0))"
  using randomSlug_alphabet [of w0] by simp

text \<open>
  Claim C7 as stated speaks of an alphabet of 61 symbols: the 62 letters and digits
  without the 4 excluded ones are 58, and so is the length of \<^const>\<open>runes\<close>.
\<close>

theorem randomSlug_alphabet_counterexample:
  "card (set runes) \<noteq> 61 \<and> card spec_alphabet \<noteq> 61"
  by (simp add: runes_card runes_spec_alphabet [symmetric])

subsection \<open>The validity check\<close>

text \<open>
  Claim C8. \<^const>\<open>slugIsValid\<close> returns true if and only if every character of the
  candidate is a member of the alphabet; so a string that contains the separator \<open>:\<close> is
  rejected, while the empty string is accepted and there are accepted strings of every
  length.
\<close>

theorem slugIsValid_charset:
  "(slugIsValid candidate \<longleftrightarrow> (\<forall>c \<in> set candidate. c \<in> set runes))
   \<and> (CHR '':'' \<in> set candidate \<longrightarrow> \<not> slugIsValid candidate)
   \<and> slugIsValid []
   \<and> slugIsValid (replicate n (CHR ''a''))"
proof -
  have "CHR '':'' \<notin> set runes" by (simp add: runes_def)
  moreover have "CHR ''a'' \<in> set runes" by (simp add: runes_def)
  ultimately show ?thesis
    by (auto simp: slugIsValid_set)
qed

theorem slugIsValid_charset_witness:
  "\<not> slugIsValid ''ab:cd'' \<and> slugIsValid ''abc'' \<and> slugIsValid ''aaaaaaaaa''"
  using slugIsValid_charset [of "''ab:cd''" 0] slugIsValid_charset [of "''abc''" 9]
  by (simp add: runes_def eval_nat_numeral)


end
